theory Spec2Isabelle
  imports Complex_Main "HOL-Library.AList"
begin

section \<open>Data model of the controller\<close>

text \<open>
  The embedding follows \<^verbatim>\<open>diffusion_policy/real_world/rtde_interpolation_controller.py\<close>.
  Python floats are idealised as reals (rounding is not modelled). Calls into the
  actuator client, the shared-memory queue, the ring buffer, the clock and the event
  are effects: every call the code makes is appended to a trace, and everything the
  code reads back from them is an input of the model.
\<close>

type_synonym pose = "real list"

text \<open>\<^verbatim>\<open>class Command(enum.Enum)\<close> and its \<^verbatim>\<open>.value\<close>.\<close>

datatype Command = STOP | SERVOL | SCHEDULE_WAYPOINT

fun Command_value :: "Command \<Rightarrow> int" where
  "Command_value STOP = 0"
| "Command_value SERVOL = 1"
| "Command_value SCHEDULE_WAYPOINT = 2"

text \<open>
  The exceptions the code can meet. \<open>KeyboardInterrupt\<close> and \<open>SystemExit\<close> derive
  from \<open>BaseException\<close> only, so \<^verbatim>\<open>except Exception\<close> does not catch them.
\<close>

datatype py_exc =
    NameError
  | ZeroDivisionError
  | AssertionError
  | Empty
  | Full
  | OSError
  | KeyboardInterrupt
  | SystemExit int

fun is_Exception :: "py_exc \<Rightarrow> bool" where
  "is_Exception KeyboardInterrupt = False"
| "is_Exception (SystemExit c) = False"
| "is_Exception e = True"

text \<open>A message dict handed to \<^verbatim>\<open>input_queue.put\<close>: only \<open>cmd\<close> is always present.\<close>

record message =
  msg_cmd :: int
  msg_target_pose :: "pose option"
  msg_duration :: "real option"
  msg_target_time :: "real option"

text \<open>
  One row of the dict of arrays that \<^verbatim>\<open>input_queue.get_all()\<close> returns: every key of
  the queue's example dict is present for every row.
\<close>

record command_row =
  row_cmd :: int
  row_target_pose :: pose
  row_duration :: real
  row_target_time :: real

text \<open>Values stored in the state dict published to the ring buffer.\<close>

datatype py_value = Arr "real list" | Num real

text \<open>Calls with an outside effect, in the order the code makes them.\<close>

datatype effect =
    StartClient string nat
  | WriteAngles pose nat
  | Sleep real
  | RingPut "(string \<times> py_value) list"
  | ReadySet
  | PrintExc string py_exc
  | PrintIp string
  | PrintSpawned


fun is_Sleep :: "effect \<Rightarrow> bool" where
  "is_Sleep (Sleep d) = True"
| "is_Sleep x = False"

text \<open>A call that, if it is a sleep at all, is the sleep of 1/125 s.\<close>

fun no_other_sleep :: "effect \<Rightarrow> bool" where
  "no_other_sleep (Sleep d) = (d = 1 / 125)"
| "no_other_sleep x = True"

text \<open>
  The attributes of \<^verbatim>\<open>RTDEInterpolationController\<close> that the methods read, and the
  pending content of its input queue. (\<open>lookahead_time\<close>, \<open>gain\<close>, the speed limits
  and the payload arguments are stored or dropped by the constructor and never read.)
\<close>

record controller =
  robot_ip :: string
  frequency :: real
  launch_timeout :: real
  joints_init :: "pose option"
  verbose :: bool
  receive_keys :: "string list"
  input_queue :: "message list"

section \<open>The command queue\<close>

text \<open>
  Modelled from the spec: \<^verbatim>\<open>SharedMemoryQueue\<close> is not among the sources. Section 4.2:
  \<open>put\<close> is a non-blocking append that fails with QueueFull when the capacity fixed at
  creation is exceeded; the constructor creates the queue with \<^verbatim>\<open>buffer_size=256\<close>.
\<close>

definition buffer_size :: nat where
  "buffer_size = 256"

definition queue_put :: "message list \<Rightarrow> message \<Rightarrow> py_exc + message list" where
  "queue_put q m = (if length q \<ge> buffer_size then Inl Full else Inr (q @ [m]))"

section \<open>Constructor\<close>

record init_args =
  arg_robot_ip :: string
  arg_frequency :: real
  arg_launch_timeout :: real
  arg_joints_init :: "pose option"
  arg_verbose :: bool
  arg_receive_keys :: "string list option"

text \<open>What the robot client answers while the constructor runs.\<close>

record init_env =
  start_client_result :: "py_exc option"
  init_get_angles :: "nat \<Rightarrow> py_exc + pose"

text \<open>The \<^verbatim>\<open>for key in receive_keys\<close> loop that fills a dict from \<^verbatim>\<open>get_angles()\<close>.\<close>

fun read_keys ::
  "(nat \<Rightarrow> py_exc + pose) \<Rightarrow> nat \<Rightarrow> string list \<Rightarrow> (string \<times> py_value) list
    \<Rightarrow> py_exc + (string \<times> py_value) list" where
  "read_keys g i [] d = Inr d"
| "read_keys g i (k # ks) d =
     (case g i of
        Inl exc \<Rightarrow> Inl exc
      | Inr a \<Rightarrow> read_keys g (Suc i) ks (AList.update k (Arr a) d))"

text \<open>
  \<^verbatim>\<open>__init__\<close>: returns the calls made and either the exception that leaves the
  constructor or the constructed object. \<^verbatim>\<open>exit(1)\<close> raises \<open>SystemExit(1)\<close>.
\<close>

definition controller_init :: "init_args \<Rightarrow> init_env \<Rightarrow> effect list \<times> (py_exc + controller)" where
  "controller_init a env =
     (let keys = (case arg_receive_keys a of None \<Rightarrow> [''ActualTCPPose''] | Some ks \<Rightarrow> ks);
          t1 = [StartClient (arg_robot_ip a) 5001]
      in case start_client_result env of
           Some e \<Rightarrow>
             (if is_Exception e
              then (t1 @ [PrintExc ''Failed to start elephant client'' e], Inl (SystemExit 1))
              else (t1, Inl e))
         | None \<Rightarrow>
             (case read_keys (init_get_angles env) 0 keys [] of
                Inl exc \<Rightarrow> (t1, Inl exc)
              | Inr example \<Rightarrow>
                  (t1 @ [PrintIp (arg_robot_ip a)],
                   Inr \<lparr>robot_ip = arg_robot_ip a,
                        frequency = arg_frequency a,
                        launch_timeout = arg_launch_timeout a,
                        joints_init = arg_joints_init a,
                        verbose = arg_verbose a,
                        receive_keys = keys,
                        input_queue = []\<rparr>)))"

section \<open>Command methods of the handle\<close>

text \<open>
  \<^verbatim>\<open>servoL\<close>: the result is the exception raised (if any) and the object afterwards.
  \<open>alive\<close> is what \<^verbatim>\<open>self.is_alive()\<close> answers.
\<close>

definition servoL :: "controller \<Rightarrow> bool \<Rightarrow> pose \<Rightarrow> real \<Rightarrow> py_exc option \<times> controller" where
  "servoL self alive pose duration =
     (if \<not> alive then (Some AssertionError, self)
      else if frequency self = 0 then (Some ZeroDivisionError, self)
      else if \<not> (duration \<ge> 1 / frequency self) then (Some AssertionError, self)
      else if length pose \<noteq> 6 then (Some AssertionError, self)
      else (case queue_put (input_queue self)
                   \<lparr>msg_cmd = Command_value SERVOL,
                    msg_target_pose = Some pose,
                    msg_duration = Some duration,
                    msg_target_time = None\<rparr> of
              Inl exc \<Rightarrow> (Some exc, self)
            | Inr q \<Rightarrow> (None, self\<lparr>input_queue := q\<rparr>)))"

text \<open>\<^verbatim>\<open>schedule_waypoint\<close>; \<open>now\<close> is what \<^verbatim>\<open>time.time()\<close> answers.\<close>

definition schedule_waypoint :: "controller \<Rightarrow> real \<Rightarrow> pose \<Rightarrow> real \<Rightarrow> py_exc option \<times> controller" where
  "schedule_waypoint self now pose target_time =
     (if \<not> (target_time > now) then (Some AssertionError, self)
      else if length pose \<noteq> 6 then (Some AssertionError, self)
      else (case queue_put (input_queue self)
                   \<lparr>msg_cmd = Command_value SCHEDULE_WAYPOINT,
                    msg_target_pose = Some pose,
                    msg_duration = None,
                    msg_target_time = Some target_time\<rparr> of
              Inl exc \<Rightarrow> (Some exc, self)
            | Inr q \<Rightarrow> (None, self\<lparr>input_queue := q\<rparr>)))"

section \<open>Launch and shutdown\<close>

text \<open>
  What the launching context observes: what \<^verbatim>\<open>super().start()\<close> raises, if anything
  (the library's \<^verbatim>\<open>Process.start\<close> asserts that the process was not started before,
  and the spawn itself can fail); the moment (in seconds after the call of
  \<^verbatim>\<open>ready_event.wait\<close>, not positive when already set) at which the event becomes set,
  if ever; and what \<^verbatim>\<open>self.is_alive()\<close> answers once the wait has returned.
\<close>

record launch_obs =
  spawn_result :: "py_exc option"
  ready_set_at :: "real option"
  alive_after_wait :: bool

text \<open>
  \<^verbatim>\<open>Event.wait(timeout)\<close> of the Python library: it returns as soon as the flag is set
  or when the timeout has elapsed. The result is the flag and the seconds blocked.
\<close>

definition event_wait :: "real option \<Rightarrow> real \<Rightarrow> bool \<times> real" where
  "event_wait set_at timeout =
     (case set_at of
        None \<Rightarrow> (False, max 0 timeout)
      | Some t \<Rightarrow> (if t \<le> max 0 timeout then (True, max 0 t) else (False, max 0 timeout)))"

text \<open>
  \<^verbatim>\<open>start_wait\<close>: the value of \<^verbatim>\<open>wait\<close> is dropped, then \<^verbatim>\<open>assert self.is_alive()\<close>.
  The result is the exception raised (if any) and the seconds blocked.
\<close>

definition start_wait :: "controller \<Rightarrow> launch_obs \<Rightarrow> py_exc option \<times> real" where
  "start_wait self obs =
     (let blocked = snd (event_wait (ready_set_at obs) (launch_timeout self))
      in (if alive_after_wait obs then None else Some AssertionError, blocked))"

text \<open>
  \<^verbatim>\<open>start\<close>: \<^verbatim>\<open>super().start()\<close>, then \<^verbatim>\<open>start_wait\<close> when \<open>wait\<close> is set, then the
  verbose print. The result is the exception raised (if any), the seconds blocked
  on the event, and what was printed.
\<close>

definition start :: "controller \<Rightarrow> bool \<Rightarrow> launch_obs \<Rightarrow> py_exc option \<times> real \<times> effect list" where
  "start self wait obs =
     (case spawn_result obs of
        Some exc \<Rightarrow> (Some exc, 0, [])
      | None \<Rightarrow>
          (case (if wait then start_wait self obs else (None, 0)) of
             (Some exc, blocked) \<Rightarrow> (Some exc, blocked, [])
           | (None, blocked) \<Rightarrow>
               (None, blocked, if verbose self then [PrintSpawned] else [])))"

text \<open>
  \<^verbatim>\<open>stop_wait\<close> is \<^verbatim>\<open>self.join()\<close>. The library's \<^verbatim>\<open>join\<close> first checks the process
  object (it asserts that the process was started, and by the caller): \<open>join_check\<close>
  is what that check raises, if anything. After it, \<^verbatim>\<open>join\<close> returns only when the
  control process has exited: the outer \<open>None\<close> stands for a call that never
  returns.
\<close>

definition stop_wait :: "py_exc option \<Rightarrow> bool \<Rightarrow> py_exc option option" where
  "stop_wait join_check process_exits =
     (case join_check of
        Some exc \<Rightarrow> Some (Some exc)
      | None \<Rightarrow> (if process_exits then Some None else None))"

text \<open>\<^verbatim>\<open>stop\<close>: put the Stop message, then \<^verbatim>\<open>stop_wait\<close> when \<open>wait\<close> is set.\<close>

definition stop ::
  "controller \<Rightarrow> bool \<Rightarrow> py_exc option \<Rightarrow> bool \<Rightarrow> (py_exc option \<times> controller) option" where
  "stop self wait join_check process_exits =
     (case queue_put (input_queue self)
             \<lparr>msg_cmd = Command_value STOP,
              msg_target_pose = None,
              msg_duration = None,
              msg_target_time = None\<rparr> of
        Inl exc \<Rightarrow> Some (Some exc, self)
      | Inr q \<Rightarrow>
          (if wait
           then (case stop_wait join_check process_exits of
                   None \<Rightarrow> None
                 | Some r \<Rightarrow> Some (r, self\<lparr>input_queue := q\<rparr>))
           else Some (None, self\<lparr>input_queue := q\<rparr>)))"

section \<open>The control process\<close>

text \<open>
  The local variables of \<^verbatim>\<open>run\<close>, the readiness event, and the trace of the calls
  made so far. \<open>dt\<close>, \<open>curr_t\<close> and \<open>last_waypoint_time\<close> are assigned before the
  loop and never read.
\<close>

record run_state =
  dt :: real
  target_pose :: pose
  curr_t :: real
  last_waypoint_time :: real
  iter_idx :: nat
  keep_running :: bool
  ready_event :: bool
  trace :: "effect list"

text \<open>What the process reads before the loop and on one pass through the loop.\<close>

record startup_env =
  init_write_result :: "py_exc option"
  first_get_angles :: "py_exc + pose"
  time_monotonic :: real

text \<open>
  \<open>get_all_result\<close> is the batch drained (empty when \<^verbatim>\<open>get_all\<close> raises \<open>Empty\<close>);
  \<open>get_angles_result i\<close> answers the \<open>i\<close>-th \<^verbatim>\<open>get_angles()\<close> call of the tick; the
  other fields say whether \<^verbatim>\<open>write_angles\<close> and \<^verbatim>\<open>ring_buffer.put\<close> raise, and what
  \<^verbatim>\<open>time.time()\<close> answers.
\<close>

record tick_env =
  get_all_result :: "command_row list"
  write_angles_result :: "py_exc option"
  get_angles_result :: "nat \<Rightarrow> py_exc + pose"
  time_time :: real
  ring_put_result :: "py_exc option"

text \<open>
  The first \<^verbatim>\<open>try\<close> of the loop body. \<^verbatim>\<open>get_all\<close> raises \<open>Empty\<close> on an empty queue
  (the empty list here) and \<^verbatim>\<open>except Exception: pass\<close> swallows it, leaving
  \<open>target_pose\<close> as it was; otherwise \<open>target_pose\<close> becomes
  \<^verbatim>\<open>command['target_pose'][0]\<close>, the pose of the first row. The \<open>cmd\<close> column is
  never read.
\<close>

definition fetch_target :: "command_row list \<Rightarrow> pose \<Rightarrow> pose" where
  "fetch_target commands tp = (case commands of [] \<Rightarrow> tp | r # rs \<Rightarrow> row_target_pose r)"

text \<open>
  One pass through the body of \<^verbatim>\<open>while keep_running\<close>: the exception that leaves the
  body (if any) and the state reached.
\<close>

definition loop_body :: "controller \<Rightarrow> tick_env \<Rightarrow> run_state \<Rightarrow> py_exc option \<times> run_state" where
  "loop_body self e s =
     (let s1 = s\<lparr>target_pose := fetch_target (get_all_result e) (target_pose s)\<rparr>;
          s2 = s1\<lparr>trace := trace s1 @ [WriteAngles (target_pose s1) 1000]\<rparr>
      in case write_angles_result e of
           Some exc \<Rightarrow> (Some exc, s2)
         | None \<Rightarrow>
             (let s3 = s2\<lparr>trace := trace s2 @ [Sleep (1 / 125)]\<rparr>
              in case read_keys (get_angles_result e) 0 (receive_keys self) [] of
                   Inl exc \<Rightarrow> (Some exc, s3)
                 | Inr state \<Rightarrow>
                     (let state' = AList.update ''robot_receive_timestamp'' (Num (time_time e)) state;
                          s4 = s3\<lparr>trace := trace s3 @ [RingPut state']\<rparr>
                      in case ring_put_result e of
                           Some exc \<Rightarrow> (Some exc, s4)
                         | None \<Rightarrow>
                             (let s5 = (if iter_idx s4 = 0
                                        then s4\<lparr>ready_event := True, trace := trace s4 @ [ReadySet]\<rparr>
                                        else s4)
                              in (None, s5\<lparr>iter_idx := iter_idx s5 + 1\<rparr>)))))"

text \<open>
  How the loop was left: the inputs ran out with the loop still going, the loop
  condition became false, or an exception left the body.
\<close>

datatype loop_status = Exhausted | Completed | Raised py_exc

fun main_loop :: "controller \<Rightarrow> tick_env list \<Rightarrow> run_state \<Rightarrow> loop_status \<times> run_state" where
  "main_loop self [] s = (if keep_running s then (Exhausted, s) else (Completed, s))"
| "main_loop self (e # es) s =
     (if keep_running s
      then (case loop_body self e s of
              (Some exc, s') \<Rightarrow> (Raised exc, s')
            | (None, s') \<Rightarrow> main_loop self es s')
      else (Completed, s))"

text \<open>
  The body of the outer \<^verbatim>\<open>try\<close>. With \<open>verbose\<close> the f-string reads the name
  \<open>robot_ip\<close>, which is bound neither in \<^verbatim>\<open>run\<close> nor in the module.
\<close>

definition run_try :: "controller \<Rightarrow> startup_env \<Rightarrow> tick_env list \<Rightarrow> run_state \<Rightarrow> loop_status \<times> run_state" where
  "run_try self senv ticks s =
     (if verbose self then (Raised NameError, s)
      else
        (let r1 = (case joints_init self of
                     None \<Rightarrow> (None, s)
                   | Some j \<Rightarrow> (init_write_result senv, s\<lparr>trace := trace s @ [WriteAngles j 1000]\<rparr>))
         in case r1 of
              (Some exc, s1) \<Rightarrow> (Raised exc, s1)
            | (None, s1) \<Rightarrow>
                (if frequency self = 0 then (Raised ZeroDivisionError, s1)
                 else (case first_get_angles senv of
                         Inl exc \<Rightarrow> (Raised exc, s1\<lparr>dt := 1 / frequency self\<rparr>)
                       | Inr a \<Rightarrow>
                           main_loop self ticks
                             (s1\<lparr>dt := 1 / frequency self, target_pose := a,
                                 curr_t := time_monotonic senv,
                                 last_waypoint_time := time_monotonic senv,
                                 iter_idx := 0, keep_running := True\<rparr>)))))"

text \<open>How \<^verbatim>\<open>run\<close> ends: not yet (the loop is still going), by returning, or by an exception.\<close>

datatype run_outcome = StillRunning | Returned | Propagated py_exc

text \<open>The \<^verbatim>\<open>finally\<close> block; \<open>pending\<close> is the exception on its way out, if any.\<close>

definition run_finally :: "controller \<Rightarrow> py_exc option \<Rightarrow> run_state \<Rightarrow> run_outcome \<times> run_state" where
  "run_finally self pending s =
     (let s' = s\<lparr>ready_event := True, trace := trace s @ [ReadySet]\<rparr>
      in if verbose self then (Propagated NameError, s')
         else (case pending of None \<Rightarrow> (Returned, s') | Some exc \<Rightarrow> (Propagated exc, s')))"

text \<open>
  The state in which \<^verbatim>\<open>run\<close> is entered: nothing called yet, the event clear. The
  locals are unbound in Python until assigned; the values given to them here are
  never read before their assignment.
\<close>

definition run_state0 :: run_state where
  "run_state0 =
     \<lparr>dt = 0, target_pose = [], curr_t = 0, last_waypoint_time = 0, iter_idx = 0,
      keep_running = True, ready_event = False, trace = []\<rparr>"

text \<open>\<^verbatim>\<open>run\<close>: \<^verbatim>\<open>try\<close>, \<^verbatim>\<open>except Exception\<close> (which prints), \<^verbatim>\<open>finally\<close>.\<close>

definition run :: "controller \<Rightarrow> startup_env \<Rightarrow> tick_env list \<Rightarrow> run_outcome \<times> run_state" where
  "run self senv ticks =
     (case run_try self senv ticks run_state0 of
        (Exhausted, s) \<Rightarrow> (StillRunning, s)
      | (Completed, s) \<Rightarrow> run_finally self None s
      | (Raised exc, s) \<Rightarrow>
          (if is_Exception exc
           then run_finally self None (s\<lparr>trace := trace s @ [PrintExc ''error'' exc]\<rparr>)
           else run_finally self (Some exc) s))"

section \<open>Predicates and inputs used in the statements\<close>

text \<open>
  A tick on which nothing raises: the actuator call, every state read and the ring
  buffer's \<open>put\<close> return.
\<close>

definition transport_ok :: "controller \<Rightarrow> tick_env \<Rightarrow> bool" where
  "transport_ok self e =
     (write_angles_result e = None \<and> ring_put_result e = None \<and>
      (case read_keys (get_angles_result e) 0 (receive_keys self) [] of
         Inl exc \<Rightarrow> False
       | Inr state \<Rightarrow> True))"

definition home :: pose where
  "home = [0, 0, 0, 0, 0, 0]"

definition ex_controller :: controller where
  "ex_controller =
     \<lparr>robot_ip = ''192.168.0.204'', frequency = 10, launch_timeout = 3, joints_init = None,
      verbose = False, receive_keys = [''ActualTCPPose''], input_queue = []\<rparr>"

definition ex_startup :: startup_env where
  "ex_startup = \<lparr>init_write_result = None, first_get_angles = Inr home, time_monotonic = 50\<rparr>"

definition ex_state :: run_state where
  "ex_state = run_state0\<lparr>dt := 1 / 10, target_pose := home, curr_t := 50, last_waypoint_time := 50\<rparr>"

definition row_servo1 :: command_row where
  "row_servo1 =
     \<lparr>row_cmd = Command_value SERVOL, row_target_pose = [10, 0, 0, 0, 0, 0],
      row_duration = 1, row_target_time = 0\<rparr>"

definition row_servo2 :: command_row where
  "row_servo2 =
     \<lparr>row_cmd = Command_value SERVOL, row_target_pose = [20, 0, 0, 0, 0, 0],
      row_duration = 1, row_target_time = 0\<rparr>"

definition row_stop :: command_row where
  "row_stop =
     \<lparr>row_cmd = Command_value STOP, row_target_pose = home,
      row_duration = 0, row_target_time = 0\<rparr>"

text \<open>A tick that drains the given rows and on which the robot answers.\<close>

definition ex_tick :: "command_row list \<Rightarrow> tick_env" where
  "ex_tick rows =
     \<lparr>get_all_result = rows, write_angles_result = None,
      get_angles_result = (\<lambda>i. Inr home), time_time = 0, ring_put_result = None\<rparr>"

text \<open>A tick on which \<^verbatim>\<open>write_angles\<close> raises.\<close>

definition fail_tick :: tick_env where
  "fail_tick = (ex_tick [])\<lparr>write_angles_result := Some OSError\<rparr>"

definition ex_args :: init_args where
  "ex_args =
     \<lparr>arg_robot_ip = ''192.168.0.204'', arg_frequency = 125, arg_launch_timeout = 3,
      arg_joints_init = None, arg_verbose = False, arg_receive_keys = None\<rparr>"

definition unreachable :: init_env where
  "unreachable = \<lparr>start_client_result = Some OSError, init_get_angles = (\<lambda>i. Inr home)\<rparr>"

section \<open>Helper facts\<close>

lemmas ex_defs = ex_controller_def ex_startup_def ex_state_def row_servo1_def row_servo2_def
  row_stop_def ex_tick_def fail_tick_def home_def run_state0_def

lemma run_finally_ready:
  "ready_event (snd (run_finally self p s)) \<and> last (trace (snd (run_finally self p s))) = ReadySet"
  by (simp add: run_finally_def Let_def split: option.splits)

lemma loop_body_ok:
  "transport_ok self e \<Longrightarrow>
   fst (loop_body self e s) = None \<and> keep_running (snd (loop_body self e s)) = keep_running s"
  by (simp add: transport_ok_def loop_body_def Let_def split: sum.splits)

text \<open>No statement of the loop body assigns \<open>keep_running\<close>.\<close>

lemma loop_body_keep_running:
  "keep_running (snd (loop_body self e s)) = keep_running s"
  by (simp add: loop_body_def Let_def split: option.splits sum.splits)

lemma main_loop_never_completes:
  "keep_running s \<Longrightarrow> list_all (transport_ok self) ticks \<Longrightarrow>
   fst (main_loop self ticks s) = Exhausted"
proof (induction ticks arbitrary: s)
  case Nil
  then show ?case by simp
next
  case (Cons e es)
  from Cons.prems have ok: "transport_ok self e" and rest: "list_all (transport_ok self) es"
    by simp_all
  obtain r s' where b: "loop_body self e s = (r, s')" by (cases "loop_body self e s")
  with loop_body_ok [OF ok, of s] Cons.prems(1) have "r = None" and "keep_running s'"
    by simp_all
  with Cons.IH [OF _ rest] b Cons.prems(1) show ?case by simp
qed

lemma run_try_never_completes:
  assumes "\<not> verbose self" and "frequency self \<noteq> 0"
    and "joints_init self = None \<or> init_write_result senv = None"
    and "first_get_angles senv = Inr a"
    and "list_all (transport_ok self) ticks"
  shows "fst (run_try self senv ticks s0) = Exhausted"
proof (cases "joints_init self")
  case None
  with assms show ?thesis
    by (simp add: run_try_def main_loop_never_completes)
next
  case (Some j)
  with assms show ?thesis
    by (simp add: run_try_def main_loop_never_completes)
qed

text \<open>Every call of one tick, in order.\<close>

lemma tick_effects:
  "trace (snd (loop_body self e s))
     = trace s @
       (case write_angles_result e of
          Some exc \<Rightarrow> [WriteAngles (fetch_target (get_all_result e) (target_pose s)) 1000]
        | None \<Rightarrow>
            WriteAngles (fetch_target (get_all_result e) (target_pose s)) 1000 # Sleep (1 / 125) #
            (case read_keys (get_angles_result e) 0 (receive_keys self) [] of
               Inl exc \<Rightarrow> []
             | Inr state \<Rightarrow>
                 RingPut (AList.update ''robot_receive_timestamp'' (Num (time_time e)) state) #
                 (case ring_put_result e of
                    Some exc \<Rightarrow> []
                  | None \<Rightarrow> (if iter_idx s = 0 then [ReadySet] else []))))"
  by (simp add: loop_body_def Let_def split: option.splits sum.splits)



lemma tick_sleeps:
  "filter is_Sleep (drop (length (trace s)) (trace (snd (loop_body self e s))))
     = (if write_angles_result e = None then [Sleep (1 / 125)] else [])"
  by (simp add: tick_effects split: option.splits sum.splits)



lemma loop_body_freq_dt:
  "loop_body (self\<lparr>frequency := f\<rparr>) e (s\<lparr>dt := d\<rparr>)
     = (fst (loop_body self e s), (snd (loop_body self e s))\<lparr>dt := d\<rparr>)"
  by (simp add: loop_body_def Let_def split: option.splits sum.splits)

lemma main_loop_freq_dt:
  "main_loop (self\<lparr>frequency := f\<rparr>) ticks (s\<lparr>dt := d\<rparr>)
     = (fst (main_loop self ticks s), (snd (main_loop self ticks s))\<lparr>dt := d\<rparr>)"
proof (induction ticks arbitrary: s)
  case Nil
  show ?case by simp
next
  case (Cons e es)
  obtain r s' where b: "loop_body self e s = (r, s')" by (cases "loop_body self e s")
  then have b': "loop_body (self\<lparr>frequency := f\<rparr>) e (s\<lparr>dt := d\<rparr>) = (r, s'\<lparr>dt := d\<rparr>)"
    by (simp add: loop_body_freq_dt)
  show ?case
  proof (cases r)
    case None
    with b b' Cons.IH [of s'] show ?thesis by simp
  next
    case (Some exc)
    with b b' show ?thesis by simp
  qed
qed

lemma main_loop_upto_dt:
  assumes "s'\<lparr>dt := 0\<rparr> = s\<lparr>dt := 0\<rparr>"
  shows "fst (main_loop (self\<lparr>frequency := f\<rparr>) ticks s') = fst (main_loop self ticks s)"
    and "(snd (main_loop (self\<lparr>frequency := f\<rparr>) ticks s'))\<lparr>dt := 0\<rparr>
           = (snd (main_loop self ticks s))\<lparr>dt := 0\<rparr>"
proof -
  have "s'\<lparr>dt := 0\<rparr>\<lparr>dt := dt s'\<rparr> = s\<lparr>dt := 0\<rparr>\<lparr>dt := dt s'\<rparr>"
    using assms by simp
  then have eq: "s' = s\<lparr>dt := dt s'\<rparr>" by simp
  have m: "main_loop (self\<lparr>frequency := f\<rparr>) ticks (s\<lparr>dt := dt s'\<rparr>)
             = (fst (main_loop self ticks s), (snd (main_loop self ticks s))\<lparr>dt := dt s'\<rparr>)"
    by (rule main_loop_freq_dt)
  from m eq show "fst (main_loop (self\<lparr>frequency := f\<rparr>) ticks s') = fst (main_loop self ticks s)"
    by simp
  from m eq show "(snd (main_loop (self\<lparr>frequency := f\<rparr>) ticks s'))\<lparr>dt := 0\<rparr>
           = (snd (main_loop self ticks s))\<lparr>dt := 0\<rparr>"
    by simp
qed

lemma run_try_freq:
  assumes "frequency self \<noteq> 0" and "f \<noteq> 0"
  shows "fst (run_try (self\<lparr>frequency := f\<rparr>) senv ticks s0) = fst (run_try self senv ticks s0)
         \<and> (snd (run_try (self\<lparr>frequency := f\<rparr>) senv ticks s0))\<lparr>dt := 0\<rparr>
           = (snd (run_try self senv ticks s0))\<lparr>dt := 0\<rparr>"
  using assms
  by (auto simp: run_try_def split: option.splits sum.splits
        intro!: main_loop_upto_dt)

lemma run_freq:
  assumes "frequency self \<noteq> 0" and "f \<noteq> 0"
  shows "fst (run (self\<lparr>frequency := f\<rparr>) senv ticks) = fst (run self senv ticks)
         \<and> (snd (run (self\<lparr>frequency := f\<rparr>) senv ticks))\<lparr>dt := 0\<rparr>
           = (snd (run self senv ticks))\<lparr>dt := 0\<rparr>"
proof -
  obtain r s where a: "run_try self senv ticks run_state0 = (r, s)"
    by (cases "run_try self senv ticks run_state0")
  obtain r' s' where b: "run_try (self\<lparr>frequency := f\<rparr>) senv ticks run_state0 = (r', s')"
    by (cases "run_try (self\<lparr>frequency := f\<rparr>) senv ticks run_state0")
  from run_try_freq [OF assms, of senv ticks run_state0] a b
  have r: "r' = r" and s: "s'\<lparr>dt := 0\<rparr> = s\<lparr>dt := 0\<rparr>" by simp_all
  have "s'\<lparr>dt := 0\<rparr>\<lparr>dt := dt s'\<rparr> = s\<lparr>dt := 0\<rparr>\<lparr>dt := dt s'\<rparr>" using s by simp
  then have eq: "s' = s\<lparr>dt := dt s'\<rparr>" by simp
  define d where "d = dt s'"
  have b': "run_try (self\<lparr>frequency := f\<rparr>) senv ticks run_state0 = (r, s\<lparr>dt := d\<rparr>)"
    using b r eq d_def by simp
  show ?thesis
    unfolding run_def a b'
    by (simp add: run_finally_def Let_def split: loop_status.splits)
qed

text \<open>Every sleep of a run is the fixed relative one.\<close>

lemma tick_no_other_sleep:
  "list_all no_other_sleep (trace s) \<Longrightarrow>
   list_all no_other_sleep (trace (snd (loop_body self e s)))"
  by (simp add: tick_effects split: option.splits sum.splits)

lemma main_loop_sleeps:
  "list_all no_other_sleep (trace s) \<Longrightarrow>
   list_all no_other_sleep (trace (snd (main_loop self ticks s)))"
proof (induction ticks arbitrary: s)
  case Nil
  then show ?case by simp
next
  case (Cons e es)
  obtain r s' where b: "loop_body self e s = (r, s')" by (cases "loop_body self e s")
  with tick_no_other_sleep [OF Cons.prems, of self e]
  have s': "list_all no_other_sleep (trace s')" by simp
  show ?case
  proof (cases r)
    case None
    with b Cons.IH [OF s'] Cons.prems show ?thesis by simp
  next
    case (Some exc)
    with b s' Cons.prems show ?thesis by simp
  qed
qed

lemma run_try_sleeps:
  "list_all no_other_sleep (trace (snd (run_try self senv ticks run_state0)))"
  by (simp add: run_try_def run_state0_def main_loop_sleeps split: option.splits sum.splits)

lemma run_sleeps:
  "list_all no_other_sleep (trace (snd (run self senv ticks)))"
proof -
  obtain r s where a: "run_try self senv ticks run_state0 = (r, s)"
    by (cases "run_try self senv ticks run_state0")
  with run_try_sleeps [of self senv ticks]
  have "list_all no_other_sleep (trace s)" by simp
  then show ?thesis
    by (simp add: run_def a run_finally_def Let_def split: loop_status.splits option.splits)
qed

lemma main_loop_prefix:
  "keep_running s \<Longrightarrow> list_all (transport_ok self) pre \<Longrightarrow>
   fst (main_loop self pre s) = Exhausted
   \<and> keep_running (snd (main_loop self pre s))
   \<and> main_loop self (pre @ ticks) s = main_loop self ticks (snd (main_loop self pre s))"
proof (induction pre arbitrary: s)
  case Nil
  then show ?case by (cases ticks) simp_all
next
  case (Cons e es)
  from Cons.prems have ok: "transport_ok self e" and rest: "list_all (transport_ok self) es"
    by simp_all
  obtain r s' where b: "loop_body self e s = (r, s')" by (cases "loop_body self e s")
  with loop_body_ok [OF ok, of s] Cons.prems(1) have "r = None" and "keep_running s'"
    by simp_all
  with Cons.IH [OF _ rest] b Cons.prems(1) show ?case by simp
qed

lemma run_try_enters_loop:
  assumes "\<not> verbose self" and "frequency self \<noteq> 0"
    and "joints_init self = None \<or> init_write_result senv = None"
    and "first_get_angles senv = Inr a"
  shows "\<exists>s0. keep_running s0 \<and> (\<forall>ticks. run_try self senv ticks run_state0 = main_loop self ticks s0)"
proof (cases "joints_init self")
  case None
  with assms have "\<forall>ticks. run_try self senv ticks run_state0
      = main_loop self ticks
          (run_state0\<lparr>dt := 1 / frequency self, target_pose := a,
                      curr_t := time_monotonic senv,
                      last_waypoint_time := time_monotonic senv,
                      iter_idx := 0, keep_running := True\<rparr>)"
    by (simp add: run_try_def)
  then show ?thesis by (intro exI conjI) (auto intro: sym)
next
  case (Some j)
  with assms have "\<forall>ticks. run_try self senv ticks run_state0
      = main_loop self ticks
          (run_state0\<lparr>trace := trace run_state0 @ [WriteAngles j 1000], dt := 1 / frequency self,
                      target_pose := a,
                      curr_t := time_monotonic senv,
                      last_waypoint_time := time_monotonic senv,
                      iter_idx := 0, keep_running := True\<rparr>)"
    by (simp add: run_try_def)
  then show ?thesis by (intro exI conjI) (auto intro: sym)
qed

text \<open>
  \<^verbatim>\<open>stop\<close> only enqueues: without \<open>wait\<close> two calls in a row append two Stop messages
  and raise nothing while the queue has room; with \<open>wait\<close> the call returns only if
  the control process exits.
\<close>

lemma stop_twice_no_wait:
  "Suc (length (input_queue self)) < buffer_size \<Longrightarrow>
   stop self False c x = Some (None, self') \<Longrightarrow>
   \<exists>self''. stop self' False c' y = Some (None, self'')
     \<and> map msg_cmd (input_queue self'') = map msg_cmd (input_queue self) @ [0, 0]"
  by (auto simp: stop_def queue_put_def split: if_splits)

lemma stop_wait_blocks:
  "length (input_queue self) < buffer_size \<Longrightarrow> stop self True None False = None"
  by (simp add: stop_def stop_wait_def queue_put_def)

section \<open>The tick: what is drained and what is dispatched\<close>




section \<open>Stop commands\<close>

text \<open>
  Claim C2 (the loop ends on a drained Stop and ignores what follows it), evaluated
  on the code: the first tick drains a Stop row followed by a ServoL row, the second
  tick a ServoL row. The loop is still running after both ticks, the pose stored in
  the Stop row was sent to the robot, and the command of the second tick was carried
  out.
\<close>

theorem stop_row_does_not_end_loop:
  "run ex_controller ex_startup [ex_tick [row_stop, row_servo1], ex_tick [row_servo2]]
     = (StillRunning,
        \<lparr>dt = 1 / 10, target_pose = [20, 0, 0, 0, 0, 0], curr_t = 50, last_waypoint_time = 50,
         iter_idx = 2, keep_running = True, ready_event = True,
         trace = [WriteAngles home 1000, Sleep (1 / 125),
                  RingPut [(''ActualTCPPose'', Arr home), (''robot_receive_timestamp'', Num 0)],
                  ReadySet,
                  WriteAngles [20, 0, 0, 0, 0, 0] 1000, Sleep (1 / 125),
                  RingPut [(''ActualTCPPose'', Arr home), (''robot_receive_timestamp'', Num 0)]]\<rparr>)"
  by (simp add: ex_defs run_def run_try_def loop_body_def fetch_target_def)

text \<open>
  Claim C8 (a second \<open>stop\<close> is harmless and the process stops once; \<open>stop\<close> with
  \<open>wait\<close> returns), evaluated on the code: as long as no call to the robot raises,
  \<open>run\<close> is still in its loop after any number of ticks, whatever rows the ticks
  drain, Stop rows included. So the process never exits and \<open>join\<close> never returns.
\<close>

theorem run_never_returns_without_transport_error:
  "\<not> verbose self \<Longrightarrow> frequency self \<noteq> 0 \<Longrightarrow>
   joints_init self = None \<or> init_write_result senv = None \<Longrightarrow>
   first_get_angles senv = Inr a \<Longrightarrow>
   list_all (transport_ok self) ticks \<Longrightarrow>
   fst (run self senv ticks) = StillRunning"
  using run_try_never_completes [of self senv a ticks run_state0]
  by (cases "run_try self senv ticks run_state0") (simp add: run_def)

text \<open>Claim C8, the same at three ticks, two of which drain a Stop row.\<close>

theorem run_never_returns_without_transport_error_witness:
  "\<not> verbose ex_controller \<and> frequency ex_controller \<noteq> 0
   \<and> joints_init ex_controller = None
   \<and> first_get_angles ex_startup = Inr home
   \<and> list_all (transport_ok ex_controller) [ex_tick [row_stop], ex_tick [row_stop], ex_tick []]
   \<and> fst (run ex_controller ex_startup [ex_tick [row_stop], ex_tick [row_stop], ex_tick []])
       = StillRunning"
proof -
  have v: "\<not> verbose ex_controller" and f: "frequency ex_controller \<noteq> 0"
    and j: "joints_init ex_controller = None \<or> init_write_result ex_startup = None"
    and j': "joints_init ex_controller = None"
    by (simp_all add: ex_controller_def)
  have g: "first_get_angles ex_startup = Inr home" by (simp add: ex_startup_def)
  have t: "list_all (transport_ok ex_controller) [ex_tick [row_stop], ex_tick [row_stop], ex_tick []]"
    by (simp add: transport_ok_def ex_tick_def ex_controller_def)
  show ?thesis
    using v f j' g t run_never_returns_without_transport_error [OF v f j g t] by simp
qed

section \<open>Timing of the loop\<close>

text \<open>
  Claim C3, as stated, at a controller configured with frequency 10: \<open>dt\<close> is
  computed as 1/10, yet each of the two ticks asks for a relative sleep of 1/125,
  and the calls made are the same when the frequency is 500.
\<close>

theorem tick_sleep_ignores_frequency:
  "run ex_controller ex_startup [ex_tick [], ex_tick []]
     = (StillRunning,
        \<lparr>dt = 1 / 10, target_pose = home, curr_t = 50, last_waypoint_time = 50,
         iter_idx = 2, keep_running = True, ready_event = True,
         trace = [WriteAngles home 1000, Sleep (1 / 125),
                  RingPut [(''ActualTCPPose'', Arr home), (''robot_receive_timestamp'', Num 0)],
                  ReadySet,
                  WriteAngles home 1000, Sleep (1 / 125),
                  RingPut [(''ActualTCPPose'', Arr home), (''robot_receive_timestamp'', Num 0)]]\<rparr>)
   \<and> trace (snd (run (ex_controller\<lparr>frequency := 500\<rparr>) ex_startup [ex_tick [], ex_tick []]))
     = trace (snd (run ex_controller ex_startup [ex_tick [], ex_tick []]))"
  by (simp add: ex_defs run_def run_try_def loop_body_def fetch_target_def)

text \<open>
  Claim C3, amended: the calls of a tick are the dispatch, then (when the dispatch
  returned) one relative sleep of the constant 1/125 s, then the state read and
  its publication, then the readiness signal on the first tick, and nothing else:
  a tick waits once, and never for a deadline. In a whole run every sleep is that
  sleep of 1/125 s. The configured frequency reaches nothing but the local \<open>dt\<close>,
  which is never read: for any two frequencies other than zero, \<open>run\<close> ends the same
  way and in the same state, \<open>dt\<close> apart.
\<close>

theorem tick_waits_one_fixed_sleep:
  "trace (snd (loop_body self e s))
     = trace s @
       (case write_angles_result e of
          Some exc \<Rightarrow> [WriteAngles (fetch_target (get_all_result e) (target_pose s)) 1000]
        | None \<Rightarrow>
            WriteAngles (fetch_target (get_all_result e) (target_pose s)) 1000 # Sleep (1 / 125) #
            (case read_keys (get_angles_result e) 0 (receive_keys self) [] of
               Inl exc \<Rightarrow> []
             | Inr state \<Rightarrow>
                 RingPut (AList.update ''robot_receive_timestamp'' (Num (time_time e)) state) #
                 (case ring_put_result e of
                    Some exc \<Rightarrow> []
                  | None \<Rightarrow> (if iter_idx s = 0 then [ReadySet] else []))))
   \<and> filter is_Sleep (drop (length (trace s)) (trace (snd (loop_body self e s))))
     = (if write_angles_result e = None then [Sleep (1 / 125)] else [])
   \<and> list_all no_other_sleep (trace (snd (run self senv ticks)))
   \<and> (frequency self \<noteq> 0 \<and> f \<noteq> 0 \<longrightarrow>
        fst (run (self\<lparr>frequency := f\<rparr>) senv ticks) = fst (run self senv ticks)
        \<and> (snd (run (self\<lparr>frequency := f\<rparr>) senv ticks))\<lparr>dt := 0\<rparr>
          = (snd (run self senv ticks))\<lparr>dt := 0\<rparr>)"
  using tick_effects [of self e s] tick_sleeps [of s self e] run_sleeps [of self senv ticks]
    run_freq [of self f senv ticks]
  by blast

text \<open>Claim C3, amended, at frequency 10 against frequency 500.\<close>

theorem tick_waits_one_fixed_sleep_witness:
  "frequency ex_controller \<noteq> 0 \<and> (500 :: real) \<noteq> 0
   \<and> write_angles_result (ex_tick [row_servo1]) = None
   \<and> filter is_Sleep
        (drop (length (trace ex_state))
           (trace (snd (loop_body ex_controller (ex_tick [row_servo1]) ex_state))))
      = [Sleep (1 / 125)]
   \<and> fst (run (ex_controller\<lparr>frequency := 500\<rparr>) ex_startup [ex_tick [row_servo1], ex_tick []])
      = fst (run ex_controller ex_startup [ex_tick [row_servo1], ex_tick []])
   \<and> (snd (run (ex_controller\<lparr>frequency := 500\<rparr>) ex_startup [ex_tick [row_servo1], ex_tick []]))
        \<lparr>dt := 0\<rparr>
      = (snd (run ex_controller ex_startup [ex_tick [row_servo1], ex_tick []]))\<lparr>dt := 0\<rparr>"
proof -
  have a: "frequency ex_controller \<noteq> 0" by (simp add: ex_controller_def)
  have b: "(500 :: real) \<noteq> 0" by simp
  have w: "write_angles_result (ex_tick [row_servo1]) = None" by (simp add: ex_tick_def)
  note T = tick_waits_one_fixed_sleep [of ex_controller "ex_tick [row_servo1]" ex_state ex_startup
        "[ex_tick [row_servo1], ex_tick []]" 500]
  note x = T [THEN conjunct2, THEN conjunct1]
  note y = T [THEN conjunct2, THEN conjunct2, THEN conjunct2]
  show ?thesis
    using a b w x y by simp
qed

section \<open>Transport errors\<close>

text \<open>
  Claim C4, as stated, at a run whose first tick has \<open>write_angles\<close> raise once: the
  run is over after that single error (it returned, having printed the error), the
  second tick never ran, and nothing was retried.
\<close>

theorem single_transport_error_terminates_run:
  "run ex_controller ex_startup [fail_tick, ex_tick [row_servo1]]
     = (Returned,
        \<lparr>dt = 1 / 10, target_pose = home, curr_t = 50, last_waypoint_time = 50,
         iter_idx = 0, keep_running = True, ready_event = True,
         trace = [WriteAngles home 1000, PrintExc ''error'' OSError, ReadySet]\<rparr>)"
  by (simp add: ex_defs run_def run_try_def run_finally_def loop_body_def fetch_target_def)

text \<open>
  Claim C4, amended: when \<open>write_angles\<close> raises on a tick, after any number of ticks
  on which nothing raised, the run ends there, whatever ticks would follow:
  nothing is retried and no count of failures is kept. An exception that is an
  \<open>Exception\<close> is printed by the handler around the loop, the cleanup sets the
  readiness event and \<open>run\<close> returns; any other exception leaves \<open>run\<close> after the
  cleanup.
\<close>

theorem transport_error_ends_run:
  assumes v: "\<not> verbose self" and f: "frequency self \<noteq> 0"
    and j: "joints_init self = None \<or> init_write_result senv = None"
    and g: "first_get_angles senv = Inr a"
    and pre: "list_all (transport_ok self) pre"
    and w: "write_angles_result e = Some exc"
  shows "run self senv (pre @ e # rest)
     = (if is_Exception exc then Returned else Propagated exc,
        (snd (run self senv pre))
          \<lparr>target_pose := fetch_target (get_all_result e) (target_pose (snd (run self senv pre))),
           ready_event := True,
           trace := trace (snd (run self senv pre))
                    @ WriteAngles (fetch_target (get_all_result e)
                                     (target_pose (snd (run self senv pre)))) 1000
                    # (if is_Exception exc then [PrintExc ''error'' exc] else [])
                    @ [ReadySet]\<rparr>)"
proof -
  from run_try_enters_loop [OF v f j g] obtain s0 where k: "keep_running s0"
    and r: "\<And>ticks. run_try self senv ticks run_state0 = main_loop self ticks s0" by blast
  obtain s1 where m: "main_loop self pre s0 = (Exhausted, s1)"
    using main_loop_prefix [OF k pre, of "[]"] by (cases "main_loop self pre s0") simp
  from main_loop_prefix [OF k pre, of "e # rest"] m
  have k1: "keep_running s1" and app: "main_loop self (pre @ e # rest) s0 = main_loop self (e # rest) s1"
    by simp_all
  have p: "run self senv pre = (StillRunning, s1)"
    by (simp add: run_def r m)
  have "loop_body self e s1
      = (Some exc,
         s1\<lparr>target_pose := fetch_target (get_all_result e) (target_pose s1),
            trace := trace s1 @ [WriteAngles (fetch_target (get_all_result e) (target_pose s1)) 1000]\<rparr>)"
    using w by (simp add: loop_body_def Let_def)
  with k1 have l: "main_loop self (e # rest) s1
      = (Raised exc,
         s1\<lparr>target_pose := fetch_target (get_all_result e) (target_pose s1),
            trace := trace s1 @ [WriteAngles (fetch_target (get_all_result e) (target_pose s1)) 1000]\<rparr>)"
    by simp
  have t: "run_try self senv (pre @ e # rest) run_state0
      = (Raised exc,
         s1\<lparr>target_pose := fetch_target (get_all_result e) (target_pose s1),
            trace := trace s1 @ [WriteAngles (fetch_target (get_all_result e) (target_pose s1)) 1000]\<rparr>)"
    by (simp only: r app l)
  show ?thesis
    unfolding p using v by (simp add: run_def t run_finally_def)
qed

text \<open>
  Claim C4, amended, at a run whose second tick fails, with a third tick that
  would drain a command.
\<close>

theorem transport_error_ends_run_witness:
  "\<not> verbose ex_controller \<and> frequency ex_controller \<noteq> 0
   \<and> joints_init ex_controller = None
   \<and> first_get_angles ex_startup = Inr home
   \<and> list_all (transport_ok ex_controller) [ex_tick [row_servo1]]
   \<and> write_angles_result fail_tick = Some OSError
   \<and> run ex_controller ex_startup ([ex_tick [row_servo1]] @ fail_tick # [ex_tick [row_servo2]])
     = (Returned,
        (snd (run ex_controller ex_startup [ex_tick [row_servo1]]))
          \<lparr>ready_event := True,
           trace := trace (snd (run ex_controller ex_startup [ex_tick [row_servo1]]))
                    @ [WriteAngles [10, 0, 0, 0, 0, 0] 1000, PrintExc ''error'' OSError, ReadySet]\<rparr>)"
proof -
  have v: "\<not> verbose ex_controller" and f: "frequency ex_controller \<noteq> 0"
    and j: "joints_init ex_controller = None \<or> init_write_result ex_startup = None"
    and j': "joints_init ex_controller = None"
    by (simp_all add: ex_controller_def)
  have g: "first_get_angles ex_startup = Inr home" by (simp add: ex_startup_def)
  have t: "list_all (transport_ok ex_controller) [ex_tick [row_servo1]]"
    by (simp add: transport_ok_def ex_tick_def ex_controller_def)
  have w: "write_angles_result fail_tick = Some OSError" by (simp add: fail_tick_def)
  have tp: "target_pose (snd (run ex_controller ex_startup [ex_tick [row_servo1]])) = [10, 0, 0, 0, 0, 0]"
    by (simp add: ex_defs run_def run_try_def loop_body_def fetch_target_def)
  have fl: "get_all_result fail_tick = []" by (simp add: fail_tick_def ex_tick_def)
  show ?thesis
    using v f j' g t w transport_error_ends_run [OF v f j g t w, of "[ex_tick [row_servo2]]"]
    by (simp add: tp fl fetch_target_def)
qed

section \<open>Cleanup and readiness\<close>

text \<open>
  Claim C5: on every path on which \<open>run\<close> ends, by returning or by an exception, the
  \<open>finally\<close> block has run: the readiness event is set, and setting it is the last
  call made.
\<close>

theorem run_exit_signals_ready:
  "fst (run self senv ticks) \<noteq> StillRunning \<Longrightarrow>
   ready_event (snd (run self senv ticks)) \<and> last (trace (snd (run self senv ticks))) = ReadySet"
  by (auto simp: run_def run_finally_ready split: prod.splits loop_status.splits)

text \<open>Claim C5 at a run that fails on its first tick, before the event was ever set.\<close>

theorem run_exit_signals_ready_witness:
  "fst (run ex_controller ex_startup [fail_tick]) \<noteq> StillRunning
   \<and> ready_event (snd (run ex_controller ex_startup [fail_tick]))
   \<and> last (trace (snd (run ex_controller ex_startup [fail_tick]))) = ReadySet"
proof -
  have h: "fst (run ex_controller ex_startup [fail_tick]) \<noteq> StillRunning"
    by (simp add: ex_defs run_def run_try_def run_finally_def loop_body_def fetch_target_def)
  show ?thesis using h run_exit_signals_ready [OF h] by simp
qed

section \<open>Validation in the command methods\<close>

text \<open>
  Claim C6: \<open>servoL\<close> rejects every call whose duration is below 1/frequency and
  leaves the object, its queue included, as it was; \<open>schedule_waypoint\<close> rejects every
  call whose target time is not after the current time, likewise. A call that did
  change the queue passed the check, and what it appended carries the duration (or
  the target time) exactly as given: nothing is clamped.
\<close>

theorem command_methods_validate:
  "(duration < 1 / frequency self \<longrightarrow>
      fst (servoL self alive pose duration) \<noteq> None
      \<and> snd (servoL self alive pose duration) = self)
   \<and> (target_time \<le> now \<longrightarrow>
      schedule_waypoint self now pose target_time = (Some AssertionError, self))
   \<and> (input_queue (snd (servoL self alive pose duration)) \<noteq> input_queue self \<longrightarrow>
      fst (servoL self alive pose duration) = None
      \<and> alive \<and> frequency self \<noteq> 0 \<and> 1 / frequency self \<le> duration \<and> length pose = 6
      \<and> input_queue (snd (servoL self alive pose duration))
          = input_queue self @ [\<lparr>msg_cmd = 1, msg_target_pose = Some pose,
                                  msg_duration = Some duration, msg_target_time = None\<rparr>])
   \<and> (input_queue (snd (schedule_waypoint self now pose target_time)) \<noteq> input_queue self \<longrightarrow>
      fst (schedule_waypoint self now pose target_time) = None
      \<and> now < target_time \<and> length pose = 6
      \<and> input_queue (snd (schedule_waypoint self now pose target_time))
          = input_queue self @ [\<lparr>msg_cmd = 2, msg_target_pose = Some pose,
                                  msg_duration = None, msg_target_time = Some target_time\<rparr>])"
proof -
  have a: "duration < 1 / frequency self \<longrightarrow>
      fst (servoL self alive pose duration) \<noteq> None
      \<and> snd (servoL self alive pose duration) = self"
    by (simp add: servoL_def)
  have b: "target_time \<le> now \<longrightarrow>
      schedule_waypoint self now pose target_time = (Some AssertionError, self)"
    by (simp add: schedule_waypoint_def)
  have c: "input_queue (snd (servoL self alive pose duration)) \<noteq> input_queue self \<longrightarrow>
      fst (servoL self alive pose duration) = None
      \<and> alive \<and> frequency self \<noteq> 0 \<and> 1 / frequency self \<le> duration \<and> length pose = 6
      \<and> input_queue (snd (servoL self alive pose duration))
          = input_queue self @ [\<lparr>msg_cmd = 1, msg_target_pose = Some pose,
                                  msg_duration = Some duration, msg_target_time = None\<rparr>]"
    by (simp add: servoL_def queue_put_def split: if_splits)
  have d: "input_queue (snd (schedule_waypoint self now pose target_time)) \<noteq> input_queue self \<longrightarrow>
      fst (schedule_waypoint self now pose target_time) = None
      \<and> now < target_time \<and> length pose = 6
      \<and> input_queue (snd (schedule_waypoint self now pose target_time))
          = input_queue self @ [\<lparr>msg_cmd = 2, msg_target_pose = Some pose,
                                  msg_duration = None, msg_target_time = Some target_time\<rparr>]"
    by (simp add: schedule_waypoint_def queue_put_def split: if_splits)
  from a b c d show ?thesis by blast
qed

text \<open>
  Claim C6 at frequency 10: a duration of 1/20 and a target time equal to the
  current time are rejected; a duration of 1 and a target time one second ahead
  are enqueued as given.
\<close>

theorem command_methods_validate_witness:
  "(1 / 20 :: real) < 1 / frequency ex_controller
   \<and> servoL ex_controller True home (1 / 20) = (Some AssertionError, ex_controller)
   \<and> schedule_waypoint ex_controller 100 home 100 = (Some AssertionError, ex_controller)
   \<and> input_queue (snd (servoL ex_controller True home 1)) \<noteq> input_queue ex_controller
   \<and> input_queue (snd (servoL ex_controller True home 1))
       = [\<lparr>msg_cmd = 1, msg_target_pose = Some home, msg_duration = Some 1,
           msg_target_time = None\<rparr>]
   \<and> input_queue (snd (schedule_waypoint ex_controller 100 home 101)) \<noteq> input_queue ex_controller
   \<and> input_queue (snd (schedule_waypoint ex_controller 100 home 101))
       = [\<lparr>msg_cmd = 2, msg_target_pose = Some home, msg_duration = None,
           msg_target_time = Some 101\<rparr>]"
  using command_methods_validate [of "1 / 20" ex_controller True home 100 100]
    command_methods_validate [of 1 ex_controller True home 101 100]
  by (simp add: ex_controller_def home_def servoL_def schedule_waypoint_def queue_put_def
        buffer_size_def)

section \<open>Launch\<close>

text \<open>
  Claim C7, as stated, at launch timeout 3, the process having been spawned.
  First: the event is never set and the process is alive; the wait times out, and
  \<open>start\<close> with \<open>wait\<close> does not fail. Second: the event is set after one second and
  the process is no longer alive when the wait returns; the event was signalled in
  time, and \<open>start\<close> fails.
\<close>

theorem start_wait_timeout_not_fatal:
  "fst (event_wait None (launch_timeout ex_controller)) = False
   \<and> fst (start ex_controller True
            \<lparr>spawn_result = None, ready_set_at = None, alive_after_wait = True\<rparr>) = None
   \<and> fst (event_wait (Some 1) (launch_timeout ex_controller)) = True
   \<and> fst (start ex_controller True
            \<lparr>spawn_result = None, ready_set_at = Some 1, alive_after_wait = False\<rparr>)
       = Some AssertionError"
  by (simp add: ex_controller_def start_def start_wait_def event_wait_def)

text \<open>
  Claim C7, amended: \<open>start\<close> with \<open>wait\<close> first spawns the process; an exception of
  the spawn (a process started twice, a failed spawn) leaves \<open>start\<close> at once, with
  no wait. Once the spawn has returned, \<open>start\<close> blocks on the readiness event for
  at most \<open>launch_timeout\<close> and then fails (with AssertionError) exactly when the
  control process is not alive, whether or not the event was signalled; a timeout
  with the process alive is not a failure.
\<close>

theorem start_fails_iff_not_alive_after_spawn:
  "(spawn_result obs = Some exc \<longrightarrow> start self True obs = (Some exc, 0, []))
   \<and> (spawn_result obs = None \<longrightarrow>
        fst (snd (start self True obs)) \<le> max 0 (launch_timeout self)
        \<and> (fst (start self True obs) = Some AssertionError) = (\<not> alive_after_wait obs)
        \<and> (fst (start self True obs) = None) = alive_after_wait obs
        \<and> fst (start self True (obs\<lparr>ready_set_at := r\<rparr>)) = fst (start self True obs))"
  by (simp add: start_def start_wait_def event_wait_def Let_def split: option.splits)

text \<open>
  Claim C7, amended, at a spawn that returned with the event never set, and at a
  process started a second time.
\<close>

theorem start_fails_iff_not_alive_after_spawn_witness:
  "spawn_result \<lparr>spawn_result = None, ready_set_at = None, alive_after_wait = True\<rparr> = None
   \<and> fst (snd (start ex_controller True
                  \<lparr>spawn_result = None, ready_set_at = None, alive_after_wait = True\<rparr>)) \<le> 3
   \<and> fst (start ex_controller True
            \<lparr>spawn_result = None, ready_set_at = None, alive_after_wait = True\<rparr>) = None
   \<and> spawn_result \<lparr>spawn_result = Some AssertionError, ready_set_at = Some 0,
                    alive_after_wait = True\<rparr> = Some AssertionError
   \<and> start ex_controller True
        \<lparr>spawn_result = Some AssertionError, ready_set_at = Some 0, alive_after_wait = True\<rparr>
      = (Some AssertionError, 0, [])"
  using start_fails_iff_not_alive_after_spawn [of "\<lparr>spawn_result = None, ready_set_at = None, alive_after_wait = True\<rparr>"
                   OSError ex_controller None]
    start_fails_iff_not_alive_after_spawn [of "\<lparr>spawn_result = Some AssertionError, ready_set_at = Some 0,
                  alive_after_wait = True\<rparr>" AssertionError ex_controller None]
  by (simp add: ex_controller_def)

section \<open>Construction\<close>

text \<open>
  Claim C9: the constructor itself calls \<open>start_client\<close> on the robot address, port
  5001, as its first outside call; when that call raises an exception the
  constructor does not hand it to the caller but leaves through \<open>exit(1)\<close>.
\<close>

theorem init_connects_and_exits:
  "hd (fst (controller_init a env)) = StartClient (arg_robot_ip a) 5001
   \<and> (start_client_result env = Some e \<and> is_Exception e \<longrightarrow>
        snd (controller_init a env) = Inl (SystemExit 1))"
  by (simp add: controller_init_def Let_def split: option.splits sum.splits)

text \<open>Claim C9 at a robot that cannot be reached.\<close>

theorem init_connects_and_exits_witness:
  "start_client_result unreachable = Some OSError \<and> is_Exception OSError
   \<and> hd (fst (controller_init ex_args unreachable)) = StartClient ''192.168.0.204'' 5001
   \<and> snd (controller_init ex_args unreachable) = Inl (SystemExit 1)"
  using init_connects_and_exits [of ex_args unreachable OSError]
  by (simp add: unreachable_def ex_args_def)

section \<open>Verbose mode\<close>

text \<open>
  Claim C10: with \<open>verbose\<close> set, \<open>run\<close> raises NameError in its first statement; the
  handler prints it, the cleanup sets the event, and the cleanup's own print raises
  NameError out of \<open>run\<close>. Whatever the robot and the queue would deliver, no tick
  runs: nothing is sent to the robot and nothing is published.
\<close>

theorem verbose_run_raises_NameError:
  "verbose self \<Longrightarrow>
   run self senv ticks
     = (Propagated NameError,
        run_state0\<lparr>ready_event := True, trace := [PrintExc ''error'' NameError, ReadySet]\<rparr>)"
  by (simp add: run_def run_try_def run_finally_def run_state0_def)

text \<open>Claim C10 at a verbose controller with a command waiting in the queue.\<close>

theorem verbose_run_raises_NameError_witness:
  "verbose (ex_controller\<lparr>verbose := True\<rparr>)
   \<and> run (ex_controller\<lparr>verbose := True\<rparr>) ex_startup [ex_tick [row_servo1]]
     = (Propagated NameError,
        run_state0\<lparr>ready_event := True, trace := [PrintExc ''error'' NameError, ReadySet]\<rparr>)"
  using verbose_run_raises_NameError
    [of "ex_controller\<lparr>verbose := True\<rparr>" ex_startup "[ex_tick [row_servo1]]"]
  by simp

end
